theory Spec2Isabelle
  imports Complex_Main
begin

section \<open>JavaScript values\<close>

text \<open>
  The service is TypeScript: request payloads, parsed data and cached summaries are plain
  JavaScript values. A number is a finite IEEE double, represented by the rational it
  denotes (a JSON body cannot carry NaN). An object is the list of its own properties
  in insertion order; a property whose value is \<open>JUndefined\<close> exists but holds
  \<open>undefined\<close>.
\<close>

datatype jsval =
    JUndefined
  | JNull
  | JBool bool
  | JNum rat
  | JStr string
  | JArr "jsval list"
  | JObj "(string \<times> jsval) list"

text \<open>Truthiness, as the condition of a JavaScript \<open>if\<close> reads a value.\<close>

fun truthy :: "jsval \<Rightarrow> bool" where
  "truthy JUndefined = False"
| "truthy JNull = False"
| "truthy (JBool b) = b"
| "truthy (JNum n) = (n \<noteq> 0)"
| "truthy (JStr s) = (s \<noteq> [])"
| "truthy (JArr xs) = True"
| "truthy (JObj kvs) = True"

text \<open>
  Member access \<open>v.k\<close> on a value that is neither \<open>null\<close> nor \<open>undefined\<close>, for the
  property names this service reads (none of them is a built-in property of a string, a
  number, a boolean or an array): a missing property reads as \<open>undefined\<close>.
\<close>

fun prop_of :: "jsval \<Rightarrow> string \<Rightarrow> jsval" where
  "prop_of (JObj kvs) k = (case map_of kvs k of Some v \<Rightarrow> v | None \<Rightarrow> JUndefined)"
| "prop_of v k = JUndefined"

fun isArray :: "jsval \<Rightarrow> bool" where
  "isArray (JArr xs) = True"
| "isArray v = False"

fun nullish :: "jsval \<Rightarrow> bool" where
  "nullish JUndefined = True"
| "nullish JNull = True"
| "nullish v = False"

text \<open>
  \<open>JSON.stringify\<close> followed by \<open>JSON.parse\<close>: the value a JSON text denotes. A
  property holding \<open>undefined\<close> is left out of an object, an \<open>undefined\<close> array element
  becomes \<open>null\<close>.
\<close>

fun json_of :: "jsval \<Rightarrow> jsval"
  and json_members :: "(string \<times> jsval) list \<Rightarrow> (string \<times> jsval) list"
  and json_elems :: "jsval list \<Rightarrow> jsval list" where
  "json_of (JObj kvs) = JObj (json_members kvs)"
| "json_of (JArr xs) = JArr (json_elems xs)"
| "json_of v = v"
| "json_members [] = []"
| "json_members ((k, v) # kvs) =
     (if v = JUndefined then json_members kvs else (k, json_of v) # json_members kvs)"
| "json_elems [] = []"
| "json_elems (x # xs) = (if x = JUndefined then JNull else json_of x) # json_elems xs"

datatype error =
    TypeError
  | SyntaxError
  | PgError string
  | SCORER_UNREACHABLE
  | SCORER_UNAUTHORIZED
  | SCORER_ERROR

section \<open>OnboardingService.parseRawInput\<close>

text \<open>
  \<open>parseRawInput(rawInput: any)\<close> builds \<open>parsed\<close> by three guarded assignments, in this
  order. Reading \<open>rawInput.personalInfo\<close> on \<open>null\<close> or \<open>undefined\<close> throws a TypeError;
  the inner reads are guarded by the truthiness test and cannot throw.
\<close>

definition personalInfo_of :: "jsval \<Rightarrow> jsval" where
  "personalInfo_of p = JObj
     [(''age'', prop_of p ''age''),
      (''income'', prop_of p ''income''),
      (''employment'', prop_of p ''employment''),
      (''education'', prop_of p ''education'')]"

definition preferences_of :: "jsval \<Rightarrow> jsval" where
  "preferences_of p = JObj
     [(''riskTolerance'', prop_of p ''riskTolerance''),
      (''investmentGoals'', prop_of p ''investmentGoals''),
      (''timeHorizon'', prop_of p ''timeHorizon'')]"

definition parseRawInput :: "jsval \<Rightarrow> error + jsval" where
  "parseRawInput rawInput =
     (if nullish rawInput then Inl TypeError
      else Inr (JObj
        ((if truthy (prop_of rawInput ''personalInfo'')
          then [(''personalInfo'', personalInfo_of (prop_of rawInput ''personalInfo''))]
          else []) @
         (if truthy (prop_of rawInput ''preferences'')
          then [(''preferences'', preferences_of (prop_of rawInput ''preferences''))]
          else []) @
         (if truthy (prop_of rawInput ''flags'')
          then [(''flags'',
                 if isArray (prop_of rawInput ''flags'')
                 then prop_of rawInput ''flags'' else JArr [])]
          else []))))"

section \<open>Shared state and configuration\<close>

text \<open>
  \<open>config.cache\<close>: the recency list keeps 10 entries and lives 24 hours.
\<close>

definition recentSessionsLimit :: int where
  "recentSessionsLimit = 10"

definition recentSessionsTtl :: nat where
  "recentSessionsTtl = 86400"

text \<open>
  A row of table \<open>onboarding_sessions\<close>. The JSONB columns hold the document that
  \<open>JSON.stringify\<close> wrote; \<open>score\<close> is \<open>INT CHECK (score BETWEEN 0 AND 100)\<close>. The
  \<open>TEXT\<close> column \<open>score_explanation\<close> is represented by the value the driver was given
  for it: \<open>JNull\<close> for SQL NULL, a string for its own text, any other value for the text
  the driver renders it as.
\<close>

record session_row =
  row_id :: string
  user_id :: string
  created_at :: string
  raw_input :: jsval
  parsed_data :: jsval
  row_score :: "int option"
  score_explanation :: jsval
  source_ip :: "string option"
  user_agent :: "string option"

text \<open>
  A string stored in Redis: the JSON text of a value (represented by the value it
  denotes), or a string that is not JSON, on which \<open>JSON.parse\<close> throws.
\<close>

datatype redis_string = JsonText jsval | OtherText string

record redis_list =
  items :: "redis_string list"
  ttl :: "nat option"

text \<open>The body and options of one \<open>axios.post\<close> to the scoring engine.\<close>

record ScoreRequest =
  req_userId :: string
  req_parsedData :: jsval
  req_timeout :: nat

datatype level = Debug | Info | Warn | Err

text \<open>
  Everything the service shares between requests: the table, the Redis keyspace, the
  requests sent to the scoring engine so far, and the log.
\<close>

record world =
  db :: "session_row list"
  redis :: "string \<rightharpoonup> redis_list"
  requests :: "ScoreRequest list"
  log :: "(level \<times> string) list"

definition logger :: "level \<Rightarrow> string \<Rightarrow> world \<Rightarrow> world" where
  "logger l msg w = w\<lparr>log := log w @ [(l, msg)]\<rparr>"

section \<open>Redis list commands\<close>

text \<open>
  \<open>LPUSH\<close>, \<open>LTRIM\<close>, \<open>EXPIRE\<close> and \<open>LRANGE\<close> as Redis documents them. An index
  below zero counts from the end of the list, an index past the end is clamped, and a key
  whose list becomes empty is removed.
\<close>

definition list_range :: "'a list \<Rightarrow> int \<Rightarrow> int \<Rightarrow> 'a list" where
  "list_range xs start stop =
     (let n = int (length xs);
          s = max 0 (if start < 0 then n + start else start);
          e = (if stop < 0 then n + stop else stop)
      in if e < s \<or> n \<le> s then []
         else take (nat (min e (n - 1) - s + 1)) (drop (nat s) xs))"

definition lpush :: "string \<Rightarrow> redis_string \<Rightarrow> (string \<rightharpoonup> redis_list) \<Rightarrow> (string \<rightharpoonup> redis_list)" where
  "lpush key v r =
     (case r key of
        None \<Rightarrow> r(key \<mapsto> \<lparr>items = [v], ttl = None\<rparr>)
      | Some l \<Rightarrow> r(key \<mapsto> l\<lparr>items := v # items l\<rparr>))"

definition ltrim :: "string \<Rightarrow> int \<Rightarrow> int \<Rightarrow> (string \<rightharpoonup> redis_list) \<Rightarrow> (string \<rightharpoonup> redis_list)" where
  "ltrim key start stop r =
     (case r key of
        None \<Rightarrow> r
      | Some l \<Rightarrow>
          (if list_range (items l) start stop = [] then r(key := None)
           else r(key \<mapsto> l\<lparr>items := list_range (items l) start stop\<rparr>)))"

definition expire :: "string \<Rightarrow> nat \<Rightarrow> (string \<rightharpoonup> redis_list) \<Rightarrow> (string \<rightharpoonup> redis_list)" where
  "expire key secs r =
     (case r key of
        None \<Rightarrow> r
      | Some l \<Rightarrow> r(key \<mapsto> l\<lparr>ttl := Some secs\<rparr>))"

definition lrange :: "string \<Rightarrow> int \<Rightarrow> int \<Rightarrow> (string \<rightharpoonup> redis_list) \<Rightarrow> redis_string list" where
  "lrange key start stop r =
     (case r key of None \<Rightarrow> [] | Some l \<Rightarrow> list_range (items l) start stop)"

section \<open>RedisService\<close>

text \<open>
  \<open>RecentSessionSummary\<close> is \<open>{id: string, createdAt: string, score: number | null}\<close>;
  \<open>summary_obj\<close> is the object literal with these three properties.
\<close>

record RecentSessionSummary =
  summary_id :: string
  summary_createdAt :: string
  summary_score :: "rat option"

definition summary_obj :: "RecentSessionSummary \<Rightarrow> jsval" where
  "summary_obj s = JObj
     [(''id'', JStr (summary_id s)),
      (''createdAt'', JStr (summary_createdAt s)),
      (''score'', case summary_score s of None \<Rightarrow> JNull | Some n \<Rightarrow> JNum n)]"

definition JSON_stringify :: "jsval \<Rightarrow> redis_string" where
  "JSON_stringify v = JsonText (json_of v)"

fun JSON_parse :: "redis_string \<Rightarrow> error + jsval" where
  "JSON_parse (JsonText v) = Inr v"
| "JSON_parse (OtherText s) = Inl SyntaxError"

text \<open>\<open>sessions.map(JSON.parse)\<close>: the first string that does not parse throws.\<close>

fun parse_all :: "redis_string list \<Rightarrow> error + jsval list" where
  "parse_all [] = Inr []"
| "parse_all (x # xs) =
     (case JSON_parse x of
        Inl e \<Rightarrow> Inl e
      | Inr v \<Rightarrow> (case parse_all xs of Inl e \<Rightarrow> Inl e | Inr vs \<Rightarrow> Inr (v # vs)))"

text \<open>
  How the Redis client answers. \<open>RedisOk\<close>: the server runs the commands.
  \<open>RedisDown\<close>: the server is unreachable; the promise of a single command rejects,
  while \<open>exec\<close> of a pipeline resolves with one error per queued command, none of which
  ran. \<open>RedisRejects\<close>: the awaited promise itself rejects and nothing ran.
\<close>

datatype redis_outcome = RedisOk | RedisDown | RedisRejects

definition getRecentSessionsKey :: "string \<Rightarrow> string" where
  "getRecentSessionsKey userId = ''onboarding:recent:'' @ userId"

text \<open>
  \<open>addRecentSession\<close> queues \<open>lpush\<close>, \<open>ltrim 0 (limit - 1)\<close> and \<open>expire\<close> on one
  pipeline and awaits \<open>exec\<close>. It never looks at the per-command results, so a resolved
  \<open>exec\<close> is logged as a success even when no command ran; only a rejection reaches the
  \<open>catch\<close>, which logs and swallows it. \<open>addRecentSession_any\<close> is the function on
  whatever object it is handed at run time; \<open>addRecentSession\<close> is the same call on a
  summary of the declared type.
\<close>

definition addRecentSession_any ::
  "redis_outcome \<Rightarrow> string \<Rightarrow> jsval \<Rightarrow> world \<Rightarrow> world" where
  "addRecentSession_any exec userId sessionSummary w =
     (let key = getRecentSessionsKey userId;
          summaryJson = JSON_stringify sessionSummary
      in case exec of
           RedisOk \<Rightarrow>
             logger Debug ''Added recent session to cache''
               (w\<lparr>redis :=
                    expire key recentSessionsTtl
                      (ltrim key 0 (recentSessionsLimit - 1)
                        (lpush key summaryJson (redis w)))\<rparr>)
         | RedisDown \<Rightarrow> logger Debug ''Added recent session to cache'' w
         | RedisRejects \<Rightarrow> logger Err ''Failed to add recent session to cache:'' w)"

definition addRecentSession ::
  "redis_outcome \<Rightarrow> string \<Rightarrow> RecentSessionSummary \<Rightarrow> world \<Rightarrow> world" where
  "addRecentSession exec userId sessionSummary w =
     addRecentSession_any exec userId (summary_obj sessionSummary) w"

text \<open>
  \<open>getRecentSessions\<close> reads the whole list with \<open>lrange key 0 -1\<close> and parses every
  entry; any failure is logged and an empty array is returned.
\<close>

definition getRecentSessions ::
  "redis_outcome \<Rightarrow> string \<Rightarrow> world \<Rightarrow> jsval list \<times> world" where
  "getRecentSessions reply userId w =
     (let key = getRecentSessionsKey userId
      in case reply of
           RedisOk \<Rightarrow>
             (case parse_all (lrange key 0 (- 1) (redis w)) of
                Inl e \<Rightarrow> ([], logger Err ''Failed to get recent sessions from cache:'' w)
              | Inr sessions \<Rightarrow> (sessions, w))
         | RedisDown \<Rightarrow> ([], logger Err ''Failed to get recent sessions from cache:'' w)
         | RedisRejects \<Rightarrow> ([], logger Err ''Failed to get recent sessions from cache:'' w))"

text \<open>The strings stored under a user's key, and a run of appends.\<close>

definition stored :: "string \<Rightarrow> world \<Rightarrow> redis_string list" where
  "stored userId w =
     (case redis w (getRecentSessionsKey userId) of None \<Rightarrow> [] | Some l \<Rightarrow> items l)"

fun run_appends ::
  "(redis_outcome \<times> string \<times> RecentSessionSummary) list \<Rightarrow> world \<Rightarrow> world" where
  "run_appends [] w = w"
| "run_appends ((exec, userId, s) # ops) w = run_appends ops (addRecentSession exec userId s w)"

text \<open>The texts of the appends for one user that Redis accepted, oldest first.\<close>

fun appended_for ::
  "string \<Rightarrow> (redis_outcome \<times> string \<times> RecentSessionSummary) list \<Rightarrow> redis_string list" where
  "appended_for u [] = []"
| "appended_for u ((exec, userId, s) # ops) =
     (if exec = RedisOk \<and> userId = u
      then JSON_stringify (summary_obj s) # appended_for u ops
      else appended_for u ops)"

section \<open>ScoringClient\<close>

text \<open>
  How the single \<open>axios.post\<close> settles. It resolves with \<open>response.data\<close>, the body of
  a 2xx reply as it came: the client declares it a \<open>ScoreResponse\<close>
  (\<open>{score: number, explanation: string}\<close>) but nothing checks it at run time, so it is
  any value. Or it rejects with an axios error carrying \<open>error.code\<close> and, when the
  engine answered, the status of \<open>error.response\<close>; or something that is not an axios
  error is thrown.
\<close>

datatype axios_outcome =
    Resolved jsval
  | AxiosError "string option" "nat option"
  | Thrown

text \<open>
  What axios rejects with when the request's own \<open>timeout\<close> elapses: code
  \<open>ECONNABORTED\<close> and no reply. (It uses \<open>ETIMEDOUT\<close> for this only under the option
  \<open>transitional.clarifyTimeoutError\<close>, which this client does not set; otherwise
  \<open>ETIMEDOUT\<close> is the operating system's code for a connection attempt that timed out.)
\<close>

definition axios_timeout :: axios_outcome where
  "axios_timeout = AxiosError (Some ''ECONNABORTED'') None"

text \<open>
  \<open>getScore\<close>: one \<open>axios.post\<close> with \<open>timeout: 30000\<close>, no loop around it. Reading
  \<open>response.data.score\<close> for the debug line throws a TypeError inside the \<open>try\<close> when
  the body is \<open>null\<close>; any other body is returned as it is. The catch block logs and
  rethrows one of three errors, testing the error code before the status.
\<close>

definition getScore ::
  "axios_outcome \<Rightarrow> string \<Rightarrow> jsval \<Rightarrow> world \<Rightarrow> (error + jsval) \<times> world" where
  "getScore reply userId parsedData w =
     (let w1 = logger Debug ''Requesting score from scoring service'' w;
          w2 = w1\<lparr>requests := requests w1 @
                 [\<lparr>req_userId = userId, req_parsedData = parsedData, req_timeout = 30000\<rparr>]\<rparr>
      in case reply of
           Resolved data \<Rightarrow>
             (if nullish data
              then (Inl SCORER_ERROR,
                    logger Err ''Failed to get score from scoring service:'' w2)
              else (Inr data, logger Debug ''Received score from scoring service'' w2))
         | AxiosError code status \<Rightarrow>
             (Inl (if code = Some ''ECONNREFUSED'' \<or> code = Some ''ETIMEDOUT''
                   then SCORER_UNREACHABLE
                   else if status = Some 401 then SCORER_UNAUTHORIZED
                   else SCORER_ERROR),
              logger Err ''Failed to get score from scoring service:'' w2)
         | Thrown \<Rightarrow>
             (Inl SCORER_ERROR, logger Err ''Failed to get score from scoring service:'' w2))"

section \<open>The durable store\<close>

text \<open>
  \<open>pool.query\<close> with the two statements of \<open>createSession\<close>. The reply is \<open>Some c\<close>
  when the query rejects before the server runs the statement (no connection, code
  \<open>c\<close>). Otherwise the table's constraints decide: \<open>id\<close> is the primary key (a second
  row with the same id is SQLSTATE 23505), and \<open>score\<close> is an \<open>INT\<close> with
  \<open>CHECK (score BETWEEN 0 AND 100)\<close> (23514 when a row would break it; NULL passes).
  The types of the other columns (\<open>UUID\<close>, \<open>INET\<close>) are not checked here: the ids are
  UUIDs by validation and by \<open>uuidv4\<close>.
\<close>

definition pool_insert ::
  "string option \<Rightarrow> session_row \<Rightarrow> session_row list \<Rightarrow> error + session_row list" where
  "pool_insert reply row rows =
     (case reply of
        Some c \<Rightarrow> Inl (PgError c)
      | None \<Rightarrow>
          (if row_id row \<in> set (map row_id rows) then Inl (PgError ''23505'')
           else Inr (rows @ [row])))"

text \<open>
  Binding a JavaScript value to the \<open>INT\<close> parameter. The driver sends \<open>null\<close> and
  \<open>undefined\<close> as NULL and everything else as text. The text of a number is an \<open>INT\<close>
  when the number is an integer of 32 bits (22003 beyond that, 22P02 for a fraction or
  an exponent form, which starts at \<open>1e21\<close>); the text of a boolean, an array or an
  object is not; how the server reads the text of a string is the parameter \<open>int4in\<close>.
\<close>

fun bind_int :: "(string \<Rightarrow> int option) \<Rightarrow> jsval \<Rightarrow> error + int option" where
  "bind_int int4in JUndefined = Inr None"
| "bind_int int4in JNull = Inr None"
| "bind_int int4in (JNum n) =
     (if of_int \<lfloor>n\<rfloor> \<noteq> n \<or> 10 ^ 21 \<le> \<bar>n\<bar> then Inl (PgError ''22P02'')
      else if \<lfloor>n\<rfloor> < - (2 ^ 31) \<or> 2 ^ 31 \<le> \<lfloor>n\<rfloor> then Inl (PgError ''22003'')
      else Inr (Some \<lfloor>n\<rfloor>))"
| "bind_int int4in (JStr s) =
     (case int4in s of None \<Rightarrow> Inl (PgError ''22P02'') | Some i \<Rightarrow> Inr (Some i))"
| "bind_int int4in v = Inl (PgError ''22P02'')"

text \<open>Binding a value to the \<open>TEXT\<close> parameter: \<open>undefined\<close> is NULL too.\<close>

definition bind_text :: "jsval \<Rightarrow> jsval" where
  "bind_text v = (if v = JUndefined then JNull else v)"

definition in_check :: "int option \<Rightarrow> bool" where
  "in_check sc = (case sc of None \<Rightarrow> True | Some i \<Rightarrow> 0 \<le> i \<and> i \<le> 100)"

definition pool_update ::
  "string option \<Rightarrow> (string \<Rightarrow> int option) \<Rightarrow> jsval \<Rightarrow> jsval \<Rightarrow> string
     \<Rightarrow> session_row list \<Rightarrow> error + session_row list" where
  "pool_update reply int4in score scoreExplanation sessionId rows =
     (case reply of
        Some c \<Rightarrow> Inl (PgError c)
      | None \<Rightarrow>
          (case bind_int int4in score of
             Inl e \<Rightarrow> Inl e
           | Inr sc \<Rightarrow>
               (if sessionId \<in> set (map row_id rows) \<and> \<not> in_check sc
                then Inl (PgError ''23514'')
                else Inr (map (\<lambda>r. if row_id r = sessionId
                                    then r\<lparr>row_score := sc,
                                           score_explanation := bind_text scoreExplanation\<rparr>
                                    else r) rows))))"

section \<open>OnboardingService.createSession\<close>

text \<open>
  The validated request: \<open>userId\<close> is a string and \<open>rawInput\<close> an object (its list of
  properties).
\<close>

record CreateOnboardingRequest =
  request_userId :: string
  request_rawInput :: "(string \<times> jsval) list"

text \<open>
  The session view \<open>createSession\<close> returns. \<open>score\<close> and \<open>scoreExplanation\<close> are
  declared \<open>number | null\<close> and \<open>string | null\<close>; at run time they hold whatever the
  reply of the engine held.
\<close>

record OnboardingSession =
  session_id :: string
  userId :: string
  createdAt :: string
  rawInput :: jsval
  parsedData :: jsval
  score :: jsval
  scoreExplanation :: jsval
  sourceIp :: "string option"
  userAgent :: "string option"

text \<open>
  What the outside world answers during one call: the id \<open>uuidv4()\<close> draws, the clock
  (\<open>new Date()\<close>, as its ISO-8601 string), how each awaited call settles, and how the
  database server reads a text as an \<open>INT\<close>.
\<close>

record io =
  uuidv4 :: string
  new_Date :: string
  insert_reply :: "string option"
  axios_post :: axios_outcome
  update_reply :: "string option"
  int4in :: "string \<Rightarrow> int option"
  pipeline_exec :: redis_outcome

text \<open>\<open>x || null\<close> for an optional string: \<open>undefined\<close> and the empty string give \<open>null\<close>.\<close>

definition or_null :: "string option \<Rightarrow> string option" where
  "or_null x = (case x of None \<Rightarrow> None | Some s \<Rightarrow> if s = [] then None else Some s)"

text \<open>
  The inner \<open>try\<close> block: the scoring call, then the score update. \<open>score\<close> and
  \<open>scoreExplanation\<close> start as \<open>null\<close> and are assigned from the reply before the
  update is awaited, so a failing update leaves them set; either failure is caught and
  logged with the same warning.
\<close>

definition score_and_update ::
  "io \<Rightarrow> string \<Rightarrow> string \<Rightarrow> jsval \<Rightarrow> world \<Rightarrow> (jsval \<times> jsval) \<times> world" where
  "score_and_update env sessionId uid parsed w =
     (case getScore (axios_post env) uid parsed w of
        (Inl e, w1) \<Rightarrow>
          ((JNull, JNull),
           logger Warn ''Failed to get score, session saved without score'' w1)
      | (Inr scoreResponse, w1) \<Rightarrow>
          (case pool_update (update_reply env) (int4in env) (prop_of scoreResponse ''score'')
                  (prop_of scoreResponse ''explanation'') sessionId (db w1) of
             Inl e \<Rightarrow>
               ((prop_of scoreResponse ''score'', prop_of scoreResponse ''explanation''),
                logger Warn ''Failed to get score, session saved without score'' w1)
           | Inr rows \<Rightarrow>
               ((prop_of scoreResponse ''score'', prop_of scoreResponse ''explanation''),
                logger Info ''Updated session with score'' (w1\<lparr>db := rows\<rparr>))))"

text \<open>
  \<open>createSession\<close>. \<open>parseRawInput\<close> runs before the outer \<open>try\<close>; an insert that
  rejects is logged and rethrown by the outer \<open>catch\<close>; after the inner block the
  summary \<open>{id, createdAt, score}\<close> is appended when \<open>score !== null\<close>, which also holds
  of \<open>undefined\<close>.
\<close>

definition createSession ::
  "io \<Rightarrow> CreateOnboardingRequest \<Rightarrow> string option \<Rightarrow> string option \<Rightarrow> world
     \<Rightarrow> (error + OnboardingSession) \<times> world" where
  "createSession env request ip agent w =
     (let sessionId = uuidv4 env; created = new_Date env
      in case parseRawInput (JObj (request_rawInput request)) of
           Inl e \<Rightarrow> (Inl e, w)
         | Inr parsed \<Rightarrow>
             (case pool_insert (insert_reply env)
                     \<lparr>row_id = sessionId, user_id = request_userId request,
                      created_at = created,
                      raw_input = json_of (JObj (request_rawInput request)),
                      parsed_data = json_of parsed,
                      row_score = None, score_explanation = JNull,
                      source_ip = or_null ip, user_agent = or_null agent\<rparr> (db w) of
                Inl e \<Rightarrow> (Inl e, logger Err ''Failed to create onboarding session:'' w)
              | Inr rows \<Rightarrow>
                  (case score_and_update env sessionId (request_userId request) parsed
                          (logger Info ''Created onboarding session'' (w\<lparr>db := rows\<rparr>)) of
                     ((sc, expl), w1) \<Rightarrow>
                       (Inr \<lparr>session_id = sessionId, userId = request_userId request,
                             createdAt = created,
                             rawInput = JObj (request_rawInput request),
                             parsedData = parsed,
                             score = sc, scoreExplanation = expl,
                             sourceIp = or_null ip, userAgent = or_null agent\<rparr>,
                        (if sc \<noteq> JNull
                         then addRecentSession_any (pipeline_exec env) (request_userId request)
                                (JObj [(''id'', JStr sessionId),
                                       (''createdAt'', JStr created),
                                       (''score'', sc)]) w1
                         else w1)))))"

section \<open>Auxiliary definitions\<close>

text \<open>
  \<open>parsed_of\<close> is the \<open>parsedData\<close> of a request, \<open>initial_row\<close> the row
  \<open>createSession\<close> inserts for it, and \<open>scoring_succeeds\<close> tells the replies on which
  \<open>getScore\<close> returns from those on which it throws.
\<close>

definition parsed_of :: "CreateOnboardingRequest \<Rightarrow> jsval" where
  "parsed_of request =
     (case parseRawInput (JObj (request_rawInput request)) of
        Inr parsed \<Rightarrow> parsed
      | Inl e \<Rightarrow> JUndefined)"

definition initial_row ::
  "io \<Rightarrow> CreateOnboardingRequest \<Rightarrow> string option \<Rightarrow> string option \<Rightarrow> session_row" where
  "initial_row env request ip agent =
     \<lparr>row_id = uuidv4 env, user_id = request_userId request, created_at = new_Date env,
      raw_input = json_of (JObj (request_rawInput request)),
      parsed_data = json_of (parsed_of request),
      row_score = None, score_explanation = JNull,
      source_ip = or_null ip, user_agent = or_null agent\<rparr>"

fun scoring_succeeds :: "axios_outcome \<Rightarrow> bool" where
  "scoring_succeeds (Resolved d) = (\<not> nullish d)"
| "scoring_succeeds r = False"

text \<open>
  What the scoring protocol promises of a score: an integer from 0 to 100.
\<close>

fun valid_score :: "jsval \<Rightarrow> bool" where
  "valid_score (JNum n) = (of_int \<lfloor>n\<rfloor> = n \<and> 0 \<le> n \<and> n \<le> 100)"
| "valid_score v = False"

text \<open>
  Score and explanation set or absent together, in a row and in a returned view; absent
  is \<open>null\<close> or \<open>undefined\<close>.
\<close>

definition row_paired :: "session_row \<Rightarrow> bool" where
  "row_paired r = ((row_score r = None) = (score_explanation r = JNull))"

definition view_paired :: "OnboardingSession \<Rightarrow> bool" where
  "view_paired v = (nullish (score v) = nullish (scoreExplanation v))"

text \<open>The names of an object's own properties, in order.\<close>

fun keys_of :: "jsval \<Rightarrow> string list" where
  "keys_of (JObj kvs) = map fst kvs"
| "keys_of v = []"

section \<open>Concrete scenarios\<close>

text \<open>
  The submission of the end-to-end test, an empty table and cache, and the replies of a
  healthy deployment; the other environments change one reply each. No score in these
  scenarios is a string, so \<open>int4in\<close> plays no part in them.
\<close>

definition sample_request :: CreateOnboardingRequest where
  "sample_request =
     \<lparr>request_userId = ''123e4567-e89b-12d3-a456-426614174000'',
      request_rawInput =
        [(''personalInfo'', JObj [(''age'', JNum 30), (''income'', JNum 75000),
                                   (''employment'', JStr ''full-time'')]),
         (''preferences'', JObj [(''riskTolerance'', JStr ''moderate'')]),
         (''flags'', JArr [])]\<rparr>"

definition world0 :: world where
  "world0 = \<lparr>db = [], redis = Map.empty, requests = [], log = []\<rparr>"

definition env_healthy :: io where
  "env_healthy =
     \<lparr>uuidv4 = ''456e7890-e89b-12d3-a456-426614174001'',
      new_Date = ''2024-01-01T00:00:00.000Z'',
      insert_reply = None,
      axios_post = Resolved (JObj [(''score'', JNum 78),
                                   (''explanation'', JStr ''base 50, income +28'')]),
      update_reply = None,
      int4in = (\<lambda>s. None),
      pipeline_exec = RedisOk\<rparr>"

definition env_engine_down :: io where
  "env_engine_down = env_healthy\<lparr>axios_post := AxiosError (Some ''ECONNREFUSED'') None\<rparr>"

definition env_store_down :: io where
  "env_store_down = env_healthy\<lparr>insert_reply := Some ''ECONNREFUSED''\<rparr>"

definition env_update_down :: io where
  "env_update_down = env_healthy\<lparr>update_reply := Some ''57P01''\<rparr>"

text \<open>
  Two replies of the engine outside the scoring protocol: a score of 150, and a score
  with no explanation.
\<close>

definition env_score_150 :: io where
  "env_score_150 =
     env_healthy\<lparr>axios_post := Resolved (JObj [(''score'', JNum 150),
                                                 (''explanation'', JStr ''rules'')])\<rparr>"

definition env_no_explanation :: io where
  "env_no_explanation =
     env_healthy\<lparr>axios_post := Resolved (JObj [(''score'', JNum 78)])\<rparr>"

text \<open>The view of the sample submission, before scoring.\<close>

definition view_unscored :: OnboardingSession where
  "view_unscored =
     \<lparr>session_id = ''456e7890-e89b-12d3-a456-426614174001'',
      userId = ''123e4567-e89b-12d3-a456-426614174000'',
      createdAt = ''2024-01-01T00:00:00.000Z'',
      rawInput = JObj (request_rawInput sample_request),
      parsedData = JObj
        [(''personalInfo'', JObj [(''age'', JNum 30), (''income'', JNum 75000),
                                   (''employment'', JStr ''full-time''),
                                   (''education'', JUndefined)]),
         (''preferences'', JObj [(''riskTolerance'', JStr ''moderate''),
                                  (''investmentGoals'', JUndefined),
                                  (''timeHorizon'', JUndefined)]),
         (''flags'', JArr [])],
      score = JNull, scoreExplanation = JNull,
      sourceIp = None, userAgent = None\<rparr>"

definition view_150 :: OnboardingSession where
  "view_150 = view_unscored\<lparr>score := JNum 150, scoreExplanation := JStr ''rules''\<rparr>"

definition view_78 :: OnboardingSession where
  "view_78 =
     view_unscored\<lparr>score := JNum 78, scoreExplanation := JStr ''base 50, income +28''\<rparr>"

definition view_no_explanation :: OnboardingSession where
  "view_no_explanation = view_unscored\<lparr>score := JNum 78, scoreExplanation := JUndefined\<rparr>"

text \<open>
  Two unvalidated payloads: \<open>flags\<close> present but \<open>false\<close>, and \<open>flags\<close> a non-empty
  string beside an unrecognised sub-field and an unrecognised section.
\<close>

definition raw_flags_false :: jsval where
  "raw_flags_false = JObj [(''flags'', JBool False)]"

definition raw_flags_text :: jsval where
  "raw_flags_text = JObj
     [(''personalInfo'', JObj [(''age'', JNum 30), (''nickname'', JStr ''sam'')]),
      (''flags'', JStr ''urgent''),
      (''note'', JNum 1)]"

text \<open>
  Eleven summaries, and the accepted appends of a list of summaries for one user.
\<close>

definition summaries11 :: "RecentSessionSummary list" where
  "summaries11 =
     [\<lparr>summary_id = ''s01'', summary_createdAt = ''2024-01-01T00:00:01.000Z'', summary_score = Some 10\<rparr>,
      \<lparr>summary_id = ''s02'', summary_createdAt = ''2024-01-01T00:00:02.000Z'', summary_score = Some 20\<rparr>,
      \<lparr>summary_id = ''s03'', summary_createdAt = ''2024-01-01T00:00:03.000Z'', summary_score = Some 30\<rparr>,
      \<lparr>summary_id = ''s04'', summary_createdAt = ''2024-01-01T00:00:04.000Z'', summary_score = Some 40\<rparr>,
      \<lparr>summary_id = ''s05'', summary_createdAt = ''2024-01-01T00:00:05.000Z'', summary_score = Some 50\<rparr>,
      \<lparr>summary_id = ''s06'', summary_createdAt = ''2024-01-01T00:00:06.000Z'', summary_score = Some 60\<rparr>,
      \<lparr>summary_id = ''s07'', summary_createdAt = ''2024-01-01T00:00:07.000Z'', summary_score = Some 70\<rparr>,
      \<lparr>summary_id = ''s08'', summary_createdAt = ''2024-01-01T00:00:08.000Z'', summary_score = Some 80\<rparr>,
      \<lparr>summary_id = ''s09'', summary_createdAt = ''2024-01-01T00:00:09.000Z'', summary_score = Some 90\<rparr>,
      \<lparr>summary_id = ''s10'', summary_createdAt = ''2024-01-01T00:00:10.000Z'', summary_score = Some 100\<rparr>,
      \<lparr>summary_id = ''s11'', summary_createdAt = ''2024-01-01T00:00:11.000Z'', summary_score = None\<rparr>]"

definition appends_for :: "string \<Rightarrow> RecentSessionSummary list
    \<Rightarrow> (redis_outcome \<times> string \<times> RecentSessionSummary) list" where
  "appends_for u xs = map (\<lambda>s. (RedisOk, u, s)) xs"

section \<open>Lemmas\<close>

lemma list_range_all: "list_range xs 0 (- 1) = xs"
  by (cases xs) (simp_all add: list_range_def Let_def)

lemma list_range_limit: "list_range xs 0 (recentSessionsLimit - 1) = take 10 xs"
  by (cases xs) (simp_all add: list_range_def Let_def recentSessionsLimit_def min_def nat_add_distrib)

subsection \<open>The recency list\<close>

lemma key_inj: "getRecentSessionsKey u1 = getRecentSessionsKey u2 \<longleftrightarrow> u1 = u2"
  by (simp add: getRecentSessionsKey_def)

lemma stored_logger: "stored u (logger l m w) = stored u w"
  by (simp add: stored_def logger_def)

lemma stored_add_any_ok:
  "stored u (addRecentSession_any RedisOk u obj w) = take 10 (JSON_stringify obj # stored u w)"
  by (cases "redis w (getRecentSessionsKey u)")
     (auto simp: addRecentSession_any_def stored_def logger_def Let_def lpush_def ltrim_def
      expire_def list_range_limit)

lemma stored_add_ok:
  "stored u (addRecentSession RedisOk u s w) = take 10 (JSON_stringify (summary_obj s) # stored u w)"
  by (simp add: addRecentSession_def stored_add_any_ok)

lemma redis_add_any_other:
  "k \<noteq> getRecentSessionsKey u \<Longrightarrow> redis (addRecentSession_any exec u obj w) k = redis w k"
  by (cases exec) (simp_all add: addRecentSession_any_def logger_def Let_def lpush_def ltrim_def
      expire_def split: option.splits)

lemma stored_add_other:
  "u \<noteq> u' \<Longrightarrow> stored u (addRecentSession exec u' s w) = stored u w"
  by (simp add: stored_def addRecentSession_def redis_add_any_other key_inj)

lemma stored_add_not_run:
  "exec \<noteq> RedisOk \<Longrightarrow> stored u (addRecentSession exec u' s w) = stored u w"
  by (cases exec) (simp_all add: addRecentSession_def addRecentSession_any_def stored_def logger_def)

lemma stored_run_appends:
  "stored u (run_appends ops w) =
     (if appended_for u ops = [] then stored u w
      else take 10 (rev (appended_for u ops) @ stored u w))"
proof (induction ops arbitrary: w)
  case Nil
  show ?case by simp
next
  case (Cons op ops)
  obtain exec u' s where op: "op = (exec, u', s)" by (cases op)
  show ?case
  proof (cases "exec = RedisOk \<and> u' = u")
    case True
    then show ?thesis
      using Cons.IH [of "addRecentSession exec u' s w"] op
      by (simp add: stored_add_ok take_Cons' min_def)
  next
    case False
    then have "stored u (addRecentSession exec u' s w) = stored u w"
      by (cases "exec = RedisOk") (auto simp: stored_add_other stored_add_not_run)
    then show ?thesis
      using Cons.IH [of "addRecentSession exec u' s w"] op False by auto
  qed
qed

subsection \<open>The steps of createSession\<close>

lemma parseRawInput_request:
  "parseRawInput (JObj (request_rawInput request)) = Inr (parsed_of request)"
  by (simp add: parseRawInput_def parsed_of_def)

lemma createSession_insert_fails:
  assumes "pool_insert (insert_reply env) (initial_row env request ip agent) (db w) = Inl e"
  shows "createSession env request ip agent w =
           (Inl e, logger Err ''Failed to create onboarding session:'' w)"
  using assms
  by (simp add: createSession_def Let_def parseRawInput_request initial_row_def)

lemma createSession_insert_ok:
  assumes "pool_insert (insert_reply env) (initial_row env request ip agent) (db w) = Inr rows"
  shows "createSession env request ip agent w =
     (case score_and_update env (uuidv4 env) (request_userId request) (parsed_of request)
             (logger Info ''Created onboarding session'' (w\<lparr>db := rows\<rparr>)) of
        ((sc, expl), w1) \<Rightarrow>
          (Inr \<lparr>session_id = uuidv4 env, userId = request_userId request,
                createdAt = new_Date env,
                rawInput = JObj (request_rawInput request),
                parsedData = parsed_of request,
                score = sc, scoreExplanation = expl,
                sourceIp = or_null ip, userAgent = or_null agent\<rparr>,
           (if sc \<noteq> JNull
            then addRecentSession_any (pipeline_exec env) (request_userId request)
                   (JObj [(''id'', JStr (uuidv4 env)),
                          (''createdAt'', JStr (new_Date env)),
                          (''score'', sc)]) w1
            else w1)))"
  using assms
  by (simp add: createSession_def Let_def parseRawInput_request initial_row_def)

lemma pool_insert_Inr:
  "pool_insert reply row rows = Inr rows' \<Longrightarrow> rows' = rows @ [row]"
  by (auto simp: pool_insert_def split: option.splits if_splits)

lemma getScore_requests:
  "requests (snd (getScore reply u p w)) =
     requests w @ [\<lparr>req_userId = u, req_parsedData = p, req_timeout = 30000\<rparr>]"
  by (cases reply) (simp_all add: getScore_def logger_def Let_def)

lemma getScore_frame:
  "db (snd (getScore reply u p w)) = db w \<and> redis (snd (getScore reply u p w)) = redis w"
  by (cases reply) (simp_all add: getScore_def logger_def Let_def)

lemma getScore_fst_failed:
  "\<not> scoring_succeeds reply \<Longrightarrow> \<exists>e. fst (getScore reply u p w) = Inl e"
  by (cases reply) (simp_all add: getScore_def Let_def)

lemma getScore_fst_succeeds:
  "\<not> nullish d \<Longrightarrow> fst (getScore (Resolved d) u p w) = Inr d"
  by (simp add: getScore_def Let_def)

lemma getScore_fails_iff:
  "(\<exists>e. fst (getScore reply u p w) = Inl e) \<longleftrightarrow> \<not> scoring_succeeds reply"
  by (cases reply) (auto simp: getScore_def Let_def)

lemma score_and_update_failed:
  assumes "\<not> scoring_succeeds (axios_post env)"
  shows "score_and_update env sid u p w =
           ((JNull, JNull),
            logger Warn ''Failed to get score, session saved without score''
              (snd (getScore (axios_post env) u p w)))"
proof -
  obtain e where "fst (getScore (axios_post env) u p w) = Inl e"
    using getScore_fst_failed [OF assms] by blast
  then show ?thesis
    by (cases "getScore (axios_post env) u p w") (simp add: score_and_update_def)
qed

lemma score_and_update_succeeded:
  assumes "axios_post env = Resolved d" and "\<not> nullish d"
  shows "fst (score_and_update env sid u p w) = (prop_of d ''score'', prop_of d ''explanation'')"
proof -
  have "fst (getScore (axios_post env) u p w) = Inr d"
    by (simp add: assms getScore_fst_succeeds)
  then show ?thesis
    by (cases "getScore (axios_post env) u p w")
       (simp add: score_and_update_def split: sum.splits)
qed

lemma createSession_view:
  assumes "pool_insert (insert_reply env) (initial_row env request ip agent) (db w) = Inr rows"
  shows "fst (createSession env request ip agent w) =
     Inr \<lparr>session_id = uuidv4 env, userId = request_userId request,
          createdAt = new_Date env,
          rawInput = JObj (request_rawInput request),
          parsedData = parsed_of request,
          score = fst (fst (score_and_update env (uuidv4 env) (request_userId request)
             (parsed_of request) (logger Info ''Created onboarding session'' (w\<lparr>db := rows\<rparr>)))),
          scoreExplanation = snd (fst (score_and_update env (uuidv4 env) (request_userId request)
             (parsed_of request) (logger Info ''Created onboarding session'' (w\<lparr>db := rows\<rparr>)))),
          sourceIp = or_null ip, userAgent = or_null agent\<rparr>"
  by (simp add: createSession_insert_ok [OF assms] case_prod_beta)

lemma createSession_world:
  assumes "pool_insert (insert_reply env) (initial_row env request ip agent) (db w) = Inr rows"
  shows "snd (createSession env request ip agent w) =
     (if fst (fst (score_and_update env (uuidv4 env) (request_userId request)
             (parsed_of request) (logger Info ''Created onboarding session'' (w\<lparr>db := rows\<rparr>))))
           \<noteq> JNull
      then addRecentSession_any (pipeline_exec env) (request_userId request)
            (JObj [(''id'', JStr (uuidv4 env)), (''createdAt'', JStr (new_Date env)),
                   (''score'', fst (fst (score_and_update env (uuidv4 env) (request_userId request)
                      (parsed_of request)
                      (logger Info ''Created onboarding session'' (w\<lparr>db := rows\<rparr>)))))])
            (snd (score_and_update env (uuidv4 env) (request_userId request)
             (parsed_of request) (logger Info ''Created onboarding session'' (w\<lparr>db := rows\<rparr>))))
      else snd (score_and_update env (uuidv4 env) (request_userId request)
             (parsed_of request) (logger Info ''Created onboarding session'' (w\<lparr>db := rows\<rparr>))))"
  by (simp add: createSession_insert_ok [OF assms] case_prod_beta)

lemma score_and_update_update_failed:
  assumes "axios_post env = Resolved d" and "\<not> nullish d"
    and "pool_update (update_reply env) (int4in env) (prop_of d ''score'')
           (prop_of d ''explanation'') sid (db w) = Inl e"
  shows "snd (score_and_update env sid u p w) =
           logger Warn ''Failed to get score, session saved without score''
             (snd (getScore (axios_post env) u p w))"
proof -
  have "fst (getScore (axios_post env) u p w) = Inr d"
    by (simp add: assms(1,2) getScore_fst_succeeds)
  then show ?thesis
    using assms(3) getScore_frame [of "axios_post env" u p w]
    by (cases "getScore (axios_post env) u p w") (simp add: score_and_update_def)
qed

lemma db_logger: "db (logger l m w) = db w"
  by (simp add: logger_def)

lemma db_addRecentSession_any: "db (addRecentSession_any exec u obj w) = db w"
  by (cases exec) (simp_all add: addRecentSession_any_def logger_def Let_def)

lemma log_addRecentSession_any: "set (log w) \<subseteq> set (log (addRecentSession_any exec u obj w))"
  by (cases exec) (auto simp: addRecentSession_any_def logger_def Let_def)

subsection \<open>Reading the recency list back\<close>

lemma json_of_summary_obj: "json_of (summary_obj s) = summary_obj s"
  by (cases "summary_score s") (simp_all add: summary_obj_def)

lemma JSON_parse_stringify_summary:
  "JSON_parse (JSON_stringify (summary_obj s)) = Inr (summary_obj s)"
  by (simp add: JSON_stringify_def json_of_summary_obj)

lemma parse_all_take:
  "parse_all xs = Inr vs \<Longrightarrow> parse_all (take n xs) = Inr (take n vs)"
proof (induction xs arbitrary: vs n)
  case Nil
  then show ?case by simp
next
  case (Cons x xs)
  then show ?case
    by (cases n) (auto split: sum.splits)
qed

lemma lrange_all: "lrange (getRecentSessionsKey u) 0 (- 1) (redis w) = stored u w"
  by (simp add: lrange_def stored_def list_range_all split: option.splits)

lemma getRecentSessions_fst:
  "fst (getRecentSessions reply u w) =
     (case reply of
        RedisOk \<Rightarrow> (case parse_all (stored u w) of Inl e \<Rightarrow> [] | Inr sessions \<Rightarrow> sessions)
      | RedisDown \<Rightarrow> []
      | RedisRejects \<Rightarrow> [])"
  by (cases reply) (simp_all add: getRecentSessions_def Let_def lrange_all split: sum.splits)

lemma stored_add_parses:
  assumes "parse_all (stored u w) = Inr old"
  shows "\<exists>old'. parse_all (stored u (addRecentSession exec u' s w)) = Inr old'"
proof (cases "exec = RedisOk \<and> u' = u")
  case True
  have "parse_all (JSON_stringify (summary_obj s) # stored u w) = Inr (summary_obj s # old)"
    using assms by (simp add: JSON_parse_stringify_summary)
  then have "parse_all (take 10 (JSON_stringify (summary_obj s) # stored u w)) =
      Inr (take 10 (summary_obj s # old))"
    by (rule parse_all_take)
  then show ?thesis
    using True by (simp only: stored_add_ok) blast
next
  case False
  then have "stored u (addRecentSession exec u' s w) = stored u w"
    by (cases "exec = RedisOk") (auto simp: stored_add_other stored_add_not_run)
  then show ?thesis using assms by simp
qed

lemma run_appends_parses:
  "parse_all (stored u w) = Inr old \<Longrightarrow> \<exists>old'. parse_all (stored u (run_appends ops w)) = Inr old'"
proof (induction ops arbitrary: w old)
  case Nil
  then show ?case by simp
next
  case (Cons op ops)
  obtain exec u' s where op: "op = (exec, u', s)" by (cases op)
  obtain old' where "parse_all (stored u (addRecentSession exec u' s w)) = Inr old'"
    using stored_add_parses [OF Cons.prems] by blast
  then show ?case
    using Cons.IH op by simp
qed

lemmas eval_defs = createSession_def Let_def parseRawInput_def sample_request_def world0_def
  env_healthy_def pool_insert_def score_and_update_def getScore_def logger_def pool_update_def
  or_null_def personalInfo_of_def preferences_of_def view_unscored_def bind_text_def
  in_check_def addRecentSession_any_def

section \<open>The claims\<close>

text \<open>
  C1. When the insert succeeds and the scoring call fails, whatever the failure,
  \<open>createSession\<close> returns the session view of the request (its id, user, creation
  time, raw input, parsed data and provenance) with score and explanation both null;
  exactly one request went to the engine (no retry); the table is the old one plus the
  inserted row (no rollback, no delete); the Redis keyspace is unchanged (no summary
  appended); and the warning is in the log.
\<close>

theorem createSession_scoring_failure:
  assumes "pool_insert (insert_reply env) (initial_row env request ip agent) (db w) = Inr rows"
    and "\<not> scoring_succeeds (axios_post env)"
  shows "fst (createSession env request ip agent w) =
           Inr \<lparr>session_id = uuidv4 env, userId = request_userId request,
                createdAt = new_Date env,
                rawInput = JObj (request_rawInput request),
                parsedData = parsed_of request,
                score = JNull, scoreExplanation = JNull,
                sourceIp = or_null ip, userAgent = or_null agent\<rparr>
       \<and> requests (snd (createSession env request ip agent w)) =
           requests w @ [\<lparr>req_userId = request_userId request,
                          req_parsedData = parsed_of request, req_timeout = 30000\<rparr>]
       \<and> db (snd (createSession env request ip agent w)) = db w @ [initial_row env request ip agent]
       \<and> redis (snd (createSession env request ip agent w)) = redis w
       \<and> (Warn, ''Failed to get score, session saved without score'')
            \<in> set (log (snd (createSession env request ip agent w)))"
  using pool_insert_Inr [OF assms(1)]
  by (simp add: createSession_view [OF assms(1)] createSession_world [OF assms(1)]
      score_and_update_failed [OF assms(2)] getScore_requests getScore_frame logger_def)

theorem createSession_scoring_failure_witness:
  "pool_insert (insert_reply env_engine_down)
      (initial_row env_engine_down sample_request None None) (db world0)
     = Inr [initial_row env_engine_down sample_request None None]
   \<and> \<not> scoring_succeeds (axios_post env_engine_down)
   \<and> fst (createSession env_engine_down sample_request None None world0) = Inr view_unscored
   \<and> length (requests (snd (createSession env_engine_down sample_request None None world0))) = 1
   \<and> map row_id (db (snd (createSession env_engine_down sample_request None None world0))) =
        [''456e7890-e89b-12d3-a456-426614174001'']
   \<and> redis (snd (createSession env_engine_down sample_request None None world0)) = Map.empty"
proof -
  have h1: "pool_insert (insert_reply env_engine_down)
      (initial_row env_engine_down sample_request None None) (db world0)
     = Inr [initial_row env_engine_down sample_request None None]"
    by (simp add: pool_insert_def env_engine_down_def env_healthy_def world0_def)
  have h2: "\<not> scoring_succeeds (axios_post env_engine_down)"
    by (simp add: env_engine_down_def env_healthy_def)
  have p: "parsed_of sample_request = parsedData view_unscored"
    by (simp add: parsed_of_def parseRawInput_def sample_request_def view_unscored_def
        personalInfo_of_def preferences_of_def)
  show ?thesis
    using createSession_scoring_failure [OF h1 h2] h1 h2 p
    by (simp add: world0_def initial_row_def env_engine_down_def env_healthy_def
        view_unscored_def sample_request_def or_null_def)
qed

text \<open>
  C2. When the insert fails with an error, \<open>createSession\<close> fails with that same error
  and returns no view; nothing was written to the table or the cache and the engine was
  never called.
\<close>

theorem createSession_insert_failure:
  assumes "pool_insert (insert_reply env) (initial_row env request ip agent) (db w) = Inl e"
  shows "fst (createSession env request ip agent w) = Inl e
       \<and> (\<forall>view. fst (createSession env request ip agent w) \<noteq> Inr view)
       \<and> db (snd (createSession env request ip agent w)) = db w
       \<and> redis (snd (createSession env request ip agent w)) = redis w
       \<and> requests (snd (createSession env request ip agent w)) = requests w
       \<and> log (snd (createSession env request ip agent w)) =
           log w @ [(Err, ''Failed to create onboarding session:'')]"
  by (simp add: createSession_insert_fails [OF assms] logger_def)

theorem createSession_insert_failure_witness:
  "pool_insert (insert_reply env_store_down)
      (initial_row env_store_down sample_request None None) (db world0)
     = Inl (PgError ''ECONNREFUSED'')
   \<and> fst (createSession env_store_down sample_request None None world0) = Inl (PgError ''ECONNREFUSED'')
   \<and> db (snd (createSession env_store_down sample_request None None world0)) = []"
proof -
  have h: "pool_insert (insert_reply env_store_down)
      (initial_row env_store_down sample_request None None) (db world0)
     = Inl (PgError ''ECONNREFUSED'')"
    by (simp add: pool_insert_def env_store_down_def env_healthy_def)
  show ?thesis
    using createSession_insert_failure [OF h] h
    by (simp add: world0_def)
qed

text \<open>
  C7. When the insert succeeds and the scoring call returns, the returned view is the
  session view of the request carrying the score and the explanation of the engine's
  reply; the view is the same whatever the update's reply is; and when the update fails
  the failure is logged as a warning, \<open>createSession\<close> still returns the view, and the
  table keeps the rows as the insert left them.
\<close>

theorem createSession_keeps_score_when_update_fails:
  assumes "pool_insert (insert_reply env) (initial_row env request ip agent) (db w) = Inr rows"
    and "axios_post env = Resolved d" and "\<not> nullish d"
  shows "fst (createSession env request ip agent w) =
           Inr \<lparr>session_id = uuidv4 env, userId = request_userId request,
                createdAt = new_Date env,
                rawInput = JObj (request_rawInput request),
                parsedData = parsed_of request,
                score = prop_of d ''score'', scoreExplanation = prop_of d ''explanation'',
                sourceIp = or_null ip, userAgent = or_null agent\<rparr>
       \<and> fst (createSession (env\<lparr>update_reply := r\<rparr>) request ip agent w) =
           fst (createSession env request ip agent w)
       \<and> (\<forall>e. pool_update (update_reply env) (int4in env) (prop_of d ''score'')
                 (prop_of d ''explanation'') (uuidv4 env) rows = Inl e
             \<longrightarrow> (Warn, ''Failed to get score, session saved without score'')
                   \<in> set (log (snd (createSession env request ip agent w)))
               \<and> db (snd (createSession env request ip agent w)) = rows)"
proof -
  have ins: "pool_insert (insert_reply (env\<lparr>update_reply := r\<rparr>))
      (initial_row (env\<lparr>update_reply := r\<rparr>) request ip agent) (db w) = Inr rows"
    using assms(1) by (simp add: initial_row_def)
  have ax: "axios_post (env\<lparr>update_reply := r\<rparr>) = Resolved d"
    using assms(2) by simp
  have view: "fst (createSession env request ip agent w) =
           Inr \<lparr>session_id = uuidv4 env, userId = request_userId request,
                createdAt = new_Date env,
                rawInput = JObj (request_rawInput request),
                parsedData = parsed_of request,
                score = prop_of d ''score'', scoreExplanation = prop_of d ''explanation'',
                sourceIp = or_null ip, userAgent = or_null agent\<rparr>
       \<and> fst (createSession (env\<lparr>update_reply := r\<rparr>) request ip agent w) =
           fst (createSession env request ip agent w)"
    by (simp add: createSession_view [OF assms(1)] createSession_view [OF ins]
        score_and_update_succeeded [OF assms(2,3)] score_and_update_succeeded [OF ax assms(3)])
  let ?w1 = "logger Info ''Created onboarding session'' (w\<lparr>db := rows\<rparr>)"
  have logged: "(Warn, ''Failed to get score, session saved without score'')
                   \<in> set (log (snd (createSession env request ip agent w)))
               \<and> db (snd (createSession env request ip agent w)) = rows"
    if upd: "pool_update (update_reply env) (int4in env) (prop_of d ''score'')
                 (prop_of d ''explanation'') (uuidv4 env) rows = Inl e" for e
  proof -
    have upd': "pool_update (update_reply env) (int4in env) (prop_of d ''score'')
                 (prop_of d ''explanation'') (uuidv4 env) (db ?w1) = Inl e"
      using upd by (simp add: db_logger)
    let ?w2 = "logger Warn ''Failed to get score, session saved without score''
             (snd (getScore (axios_post env) (request_userId request) (parsed_of request) ?w1))"
    have w2: "snd (score_and_update env (uuidv4 env) (request_userId request)
                (parsed_of request) ?w1) = ?w2"
      by (rule score_and_update_update_failed [OF assms(2,3) upd'])
    have snd_eq: "snd (createSession env request ip agent w) = ?w2
        \<or> snd (createSession env request ip agent w) =
            addRecentSession_any (pipeline_exec env) (request_userId request)
              (JObj [(''id'', JStr (uuidv4 env)), (''createdAt'', JStr (new_Date env)),
                     (''score'', prop_of d ''score'')]) ?w2"
      by (simp add: createSession_world [OF assms(1)] score_and_update_succeeded [OF assms(2,3)] w2)
    have "(Warn, ''Failed to get score, session saved without score'') \<in> set (log ?w2)"
      by (simp add: logger_def)
    then have "(Warn, ''Failed to get score, session saved without score'')
                   \<in> set (log (snd (createSession env request ip agent w)))"
      using log_addRecentSession_any snd_eq by fastforce
    moreover have "db ?w2 = rows"
      by (simp add: db_logger getScore_frame)
    then have "db (snd (createSession env request ip agent w)) = rows"
      using snd_eq by (auto simp: db_addRecentSession_any)
    ultimately show ?thesis by simp
  qed
  show ?thesis using view logged by blast
qed

theorem createSession_keeps_score_when_update_fails_witness:
  "pool_insert (insert_reply env_update_down)
      (initial_row env_update_down sample_request None None) (db world0)
     = Inr [initial_row env_update_down sample_request None None]
   \<and> axios_post env_update_down =
       Resolved (JObj [(''score'', JNum 78), (''explanation'', JStr ''base 50, income +28'')])
   \<and> \<not> nullish (JObj [(''score'', JNum 78), (''explanation'', JStr ''base 50, income +28'')])
   \<and> pool_update (update_reply env_update_down) (int4in env_update_down) (JNum 78)
        (JStr ''base 50, income +28'')
        (uuidv4 env_update_down) [initial_row env_update_down sample_request None None]
       = Inl (PgError ''57P01'')
   \<and> fst (createSession env_update_down sample_request None None world0) = Inr view_78
   \<and> (Warn, ''Failed to get score, session saved without score'')
        \<in> set (log (snd (createSession env_update_down sample_request None None world0)))
   \<and> map row_score (db (snd (createSession env_update_down sample_request None None world0))) = [None]"
proof -
  have h1: "pool_insert (insert_reply env_update_down)
      (initial_row env_update_down sample_request None None) (db world0)
     = Inr [initial_row env_update_down sample_request None None]"
    by (simp add: pool_insert_def env_update_down_def env_healthy_def world0_def)
  have h2: "axios_post env_update_down =
       Resolved (JObj [(''score'', JNum 78), (''explanation'', JStr ''base 50, income +28'')])"
    by (simp add: env_update_down_def env_healthy_def)
  have h3: "\<not> nullish (JObj [(''score'', JNum 78), (''explanation'', JStr ''base 50, income +28'')])"
    by simp
  have h4: "pool_update (update_reply env_update_down) (int4in env_update_down) (JNum 78)
        (JStr ''base 50, income +28'')
        (uuidv4 env_update_down) [initial_row env_update_down sample_request None None]
       = Inl (PgError ''57P01'')"
    by (simp add: pool_update_def env_update_down_def env_healthy_def)
  have p: "parsed_of sample_request = parsedData view_unscored"
    by (simp add: parsed_of_def parseRawInput_def sample_request_def view_unscored_def
        personalInfo_of_def preferences_of_def)
  show ?thesis
    using createSession_keeps_score_when_update_fails [OF h1 h2 h3, of None] h1 h2 h4 p
    by (simp add: initial_row_def view_78_def view_unscored_def env_update_down_def
        env_healthy_def sample_request_def or_null_def)
qed

text \<open>
  On a reply that keeps the scoring protocol, a score that is an integer from 0 to 100
  and an explanation that is a string, the view carries exactly these: its score is in
  range and score and explanation are set together.
\<close>

lemma createSession_on_protocol_reply:
  assumes "fst (createSession env request ip agent w) = Inr view"
    and "axios_post env = Resolved d"
    and "prop_of d ''score'' = JNum n" and "valid_score (JNum n)"
    and "prop_of d ''explanation'' = JStr t"
  shows "score view = JNum n \<and> valid_score (score view)
       \<and> scoreExplanation view = JStr t \<and> view_paired view"
proof (cases "pool_insert (insert_reply env) (initial_row env request ip agent) (db w)")
  case (Inl e)
  then show ?thesis
    using assms(1) by (simp add: createSession_insert_fails [OF Inl])
next
  case (Inr rows)
  have d: "\<not> nullish d"
    using assms(3) by (cases d) simp_all
  show ?thesis
    using assms(1,3,4,5)
    by (auto simp: createSession_view [OF Inr] score_and_update_succeeded [OF assms(2) d]
        view_paired_def)
qed

text \<open>
  C3. The score of a returned view is to be an integer from 0 to 100. \<open>getScore\<close>
  returns the body of the reply unchecked and \<open>createSession\<close> copies its score into
  the view before the update is attempted. When the engine answers 150 the update is
  refused by the table's CHECK, the refusal is absorbed with the warning that the session
  was saved without score, the row has no score, and yet the view says 150 and a summary
  with score 150 is cached.
\<close>

theorem createSession_score_out_of_range:
  "fst (createSession env_score_150 sample_request None None world0) = Inr view_150
   \<and> score view_150 = JNum 150 \<and> \<not> valid_score (score view_150)
   \<and> map row_score (db (snd (createSession env_score_150 sample_request None None world0)))
       = [None]
   \<and> (Warn, ''Failed to get score, session saved without score'')
        \<in> set (log (snd (createSession env_score_150 sample_request None None world0)))
   \<and> stored ''123e4567-e89b-12d3-a456-426614174000''
        (snd (createSession env_score_150 sample_request None None world0)) =
       [JSON_stringify (JObj [(''id'', JStr ''456e7890-e89b-12d3-a456-426614174001''),
                              (''createdAt'', JStr ''2024-01-01T00:00:00.000Z''),
                              (''score'', JNum 150)])]"
  by (simp add: eval_defs env_score_150_def view_150_def stored_def getRecentSessionsKey_def
      lpush_def ltrim_def expire_def list_range_limit)

text \<open>
  C4. Score and explanation are to be set or absent together. Both are copied from the
  unchecked body of the reply: when the engine answers a score of 78 with no explanation,
  the view has the score and no explanation, and the update writes the score and a NULL
  explanation into the row.
\<close>

theorem createSession_explanation_missing:
  "fst (createSession env_no_explanation sample_request None None world0) =
     Inr view_no_explanation
   \<and> score view_no_explanation = JNum 78
   \<and> scoreExplanation view_no_explanation = JUndefined
   \<and> \<not> view_paired view_no_explanation
   \<and> map row_score (db (snd (createSession env_no_explanation sample_request None None world0)))
       = [Some 78]
   \<and> map score_explanation
        (db (snd (createSession env_no_explanation sample_request None None world0)))
       = [JNull]
   \<and> \<not> list_all row_paired
          (db (snd (createSession env_no_explanation sample_request None None world0)))"
  by (simp add: eval_defs env_no_explanation_def view_no_explanation_def view_paired_def
      row_paired_def)

text \<open>
  What \<open>getScore\<close> does: exactly one request per call, with a timeout of 30 seconds;
  a body that is not \<open>null\<close> is returned as it is; an axios error whose code is
  \<open>ECONNREFUSED\<close> or \<open>ETIMEDOUT\<close> is \<open>SCORER_UNREACHABLE\<close>; otherwise an axios error
  whose reply has status 401 is \<open>SCORER_UNAUTHORIZED\<close>; anything else is
  \<open>SCORER_ERROR\<close>. (The specification calls the three kinds ENGINE_UNREACHABLE,
  ENGINE_UNAUTHORIZED and ENGINE_ERROR.)
\<close>

lemma getScore_classification:
  "requests (snd (getScore reply u p w)) =
     requests w @ [\<lparr>req_userId = u, req_parsedData = p, req_timeout = 30 * 1000\<rparr>]
   \<and> (\<forall>d. reply = Resolved d \<and> \<not> nullish d \<longrightarrow> fst (getScore reply u p w) = Inr d)
   \<and> (\<forall>d. reply = Resolved d \<and> nullish d \<longrightarrow> fst (getScore reply u p w) = Inl SCORER_ERROR)
   \<and> (\<forall>code status. reply = AxiosError code status
          \<and> (code = Some ''ECONNREFUSED'' \<or> code = Some ''ETIMEDOUT'')
        \<longrightarrow> fst (getScore reply u p w) = Inl SCORER_UNREACHABLE)
   \<and> (\<forall>code. reply = AxiosError code (Some 401)
          \<and> code \<noteq> Some ''ECONNREFUSED'' \<and> code \<noteq> Some ''ETIMEDOUT''
        \<longrightarrow> fst (getScore reply u p w) = Inl SCORER_UNAUTHORIZED)
   \<and> (\<forall>code status. reply = AxiosError code status
          \<and> code \<noteq> Some ''ECONNREFUSED'' \<and> code \<noteq> Some ''ETIMEDOUT'' \<and> status \<noteq> Some 401
        \<longrightarrow> fst (getScore reply u p w) = Inl SCORER_ERROR)
   \<and> (reply = Thrown \<longrightarrow> fst (getScore reply u p w) = Inl SCORER_ERROR)
   \<and> (\<not> scoring_succeeds reply \<longrightarrow>
        fst (getScore reply u p w)
          \<in> {Inl SCORER_UNREACHABLE, Inl SCORER_UNAUTHORIZED, Inl SCORER_ERROR})"
proof -
  have one: "requests (snd (getScore reply u p w)) =
     requests w @ [\<lparr>req_userId = u, req_parsedData = p, req_timeout = 30 * 1000\<rparr>]"
    by (simp add: getScore_requests)
  have kinds: "fst (getScore reply u p w) =
     (case reply of
        Resolved d \<Rightarrow> if nullish d then Inl SCORER_ERROR else Inr d
      | AxiosError code status \<Rightarrow>
          Inl (if code = Some ''ECONNREFUSED'' \<or> code = Some ''ETIMEDOUT''
               then SCORER_UNREACHABLE
               else if status = Some 401 then SCORER_UNAUTHORIZED else SCORER_ERROR)
      | Thrown \<Rightarrow> Inl SCORER_ERROR)"
    by (cases reply) (simp_all add: getScore_def Let_def)
  show ?thesis
    unfolding kinds using one by (cases reply) auto
qed

text \<open>
  C6. A timeout is to fail as unreachable, and a malformed reply as an error. The catch
  block knows a timeout by the code \<open>ETIMEDOUT\<close> alone, and the request's own timeout
  of 30 seconds is reported by axios as \<open>ECONNABORTED\<close>: it fails as \<open>SCORER_ERROR\<close>,
  not as \<open>SCORER_UNREACHABLE\<close>. And a reply with status 200 whose body is not a score,
  here a page of text, is not a failure at all: it is returned to the caller.
\<close>

theorem getScore_own_timeout_is_error:
  "axios_timeout = AxiosError (Some ''ECONNABORTED'') None
   \<and> fst (getScore axios_timeout (request_userId sample_request) (parsed_of sample_request)
            world0) = Inl SCORER_ERROR
   \<and> fst (getScore axios_timeout (request_userId sample_request) (parsed_of sample_request)
            world0) \<noteq> Inl SCORER_UNREACHABLE
   \<and> fst (getScore (Resolved (JStr ''Bad Gateway'')) (request_userId sample_request)
            (parsed_of sample_request) world0) = Inr (JStr ''Bad Gateway'')"
  by (simp add: axios_timeout_def getScore_def Let_def)

text \<open>
  C8. For every \<open>rawInput\<close> object, \<open>parsedData\<close> has no property other than
  \<open>personalInfo\<close>, \<open>preferences\<close> and \<open>flags\<close>; each is there exactly when the section
  is truthy in \<open>rawInput\<close> (an absent section, and one that is \<open>null\<close>, \<open>false\<close>, \<open>0\<close>
  or the empty string, is left out); \<open>personalInfo\<close> and \<open>preferences\<close> hold exactly the
  recognised sub-fields, copied; and \<open>flags\<close> is the array given, or the empty array
  when the value is truthy and not an array. The claim's "whenever it is present but not
  a sequence" fails for a falsy value: \<open>flags: false\<close> yields no \<open>flags\<close> at all.
\<close>

theorem parseRawInput_sections:
  "\<exists>parsed. parseRawInput (JObj kvs) = Inr parsed
     \<and> set (keys_of parsed) \<subseteq> {''personalInfo'', ''preferences'', ''flags''}
     \<and> (''personalInfo'' \<in> set (keys_of parsed)) = truthy (prop_of (JObj kvs) ''personalInfo'')
     \<and> (''preferences'' \<in> set (keys_of parsed)) = truthy (prop_of (JObj kvs) ''preferences'')
     \<and> (''flags'' \<in> set (keys_of parsed)) = truthy (prop_of (JObj kvs) ''flags'')
     \<and> prop_of parsed ''personalInfo'' =
         (if truthy (prop_of (JObj kvs) ''personalInfo'')
          then JObj [(''age'', prop_of (prop_of (JObj kvs) ''personalInfo'') ''age''),
                     (''income'', prop_of (prop_of (JObj kvs) ''personalInfo'') ''income''),
                     (''employment'', prop_of (prop_of (JObj kvs) ''personalInfo'') ''employment''),
                     (''education'', prop_of (prop_of (JObj kvs) ''personalInfo'') ''education'')]
          else JUndefined)
     \<and> prop_of parsed ''preferences'' =
         (if truthy (prop_of (JObj kvs) ''preferences'')
          then JObj [(''riskTolerance'', prop_of (prop_of (JObj kvs) ''preferences'') ''riskTolerance''),
                     (''investmentGoals'', prop_of (prop_of (JObj kvs) ''preferences'') ''investmentGoals''),
                     (''timeHorizon'', prop_of (prop_of (JObj kvs) ''preferences'') ''timeHorizon'')]
          else JUndefined)
     \<and> prop_of parsed ''flags'' =
         (if truthy (prop_of (JObj kvs) ''flags'')
          then (if isArray (prop_of (JObj kvs) ''flags'') then prop_of (JObj kvs) ''flags''
                else JArr [])
          else JUndefined)"
  by (simp add: parseRawInput_def personalInfo_of_def preferences_of_def)

theorem parseRawInput_sections_witness:
  "truthy (prop_of raw_flags_text ''flags'') \<and> \<not> isArray (prop_of raw_flags_text ''flags'')
   \<and> (\<exists>parsed. parseRawInput raw_flags_text = Inr parsed
         \<and> keys_of parsed = [''personalInfo'', ''flags'']
         \<and> prop_of parsed ''flags'' = JArr []
         \<and> prop_of parsed ''personalInfo'' =
             JObj [(''age'', JNum 30), (''income'', JUndefined),
                   (''employment'', JUndefined), (''education'', JUndefined)])"
  using parseRawInput_sections [of "[(''personalInfo'', JObj [(''age'', JNum 30), (''nickname'', JStr ''sam'')]),
      (''flags'', JStr ''urgent''), (''note'', JNum 1)]"]
  by (simp add: raw_flags_text_def parseRawInput_def personalInfo_of_def preferences_of_def)

theorem parseRawInput_falsy_flags_dropped:
  "prop_of raw_flags_false ''flags'' = JBool False
   \<and> \<not> isArray (prop_of raw_flags_false ''flags'')
   \<and> parseRawInput raw_flags_false = Inr (JObj [])
   \<and> prop_of (JObj []) ''flags'' \<noteq> JArr []"
  by (simp add: raw_flags_false_def parseRawInput_def)

text \<open>
  C5. Starting from a list of at most 10 entries (an empty one at first), after any run
  of appends, accepted or not and for any users, a user's list is the accepted
  summaries for that user, newest first, in front of what was there, cut to 10 entries;
  so it never holds more than 10. Appending to a list of exactly 10 puts the new summary
  first and drops exactly the last, oldest, entry.
\<close>

theorem recency_list_bounded_newest_first:
  assumes "length (stored u w) \<le> 10"
  shows "stored u (run_appends ops w) = take 10 (rev (appended_for u ops) @ stored u w)
       \<and> length (stored u (run_appends ops w)) \<le> 10
       \<and> (length (stored u w) = 10 \<longrightarrow>
            stored u (addRecentSession RedisOk u s w) =
              JSON_stringify (summary_obj s) # butlast (stored u w))"
proof -
  have run: "stored u (run_appends ops w) = take 10 (rev (appended_for u ops) @ stored u w)"
    using assms by (simp add: stored_run_appends)
  have evict: "stored u (addRecentSession RedisOk u s w) =
              JSON_stringify (summary_obj s) # butlast (stored u w)"
    if "length (stored u w) = 10"
    using that by (simp add: stored_add_ok take_Cons' butlast_conv_take)
  show ?thesis using run evict by simp
qed

theorem recency_list_bounded_newest_first_witness:
  "length (stored ''u1'' world0) \<le> 10
   \<and> stored ''u1'' (run_appends (appends_for ''u1'' summaries11) world0) =
       map (\<lambda>s. JSON_stringify (summary_obj s)) (rev (tl summaries11))
   \<and> length (stored ''u1'' (run_appends (appends_for ''u1'' (butlast summaries11)) world0)) = 10
   \<and> stored ''u1'' (addRecentSession RedisOk ''u1'' (last summaries11)
         (run_appends (appends_for ''u1'' (butlast summaries11)) world0)) =
       JSON_stringify (summary_obj (last summaries11)) #
         butlast (stored ''u1'' (run_appends (appends_for ''u1'' (butlast summaries11)) world0))"
proof -
  have h0: "length (stored ''u1'' world0) \<le> 10"
    by (simp add: stored_def world0_def)
  have s0: "stored ''u1'' world0 = []"
    by (simp add: stored_def world0_def)
  let ?w10 = "run_appends (appends_for ''u1'' (butlast summaries11)) world0"
  have a: "stored ''u1'' (run_appends (appends_for ''u1'' summaries11) world0) =
       map (\<lambda>s. JSON_stringify (summary_obj s)) (rev (tl summaries11))"
    using recency_list_bounded_newest_first [OF h0, of "appends_for ''u1'' summaries11"]
    by (simp add: s0 appends_for_def summaries11_def)
  have b: "stored ''u1'' ?w10 =
       map (\<lambda>s. JSON_stringify (summary_obj s)) (rev (butlast summaries11))"
    using recency_list_bounded_newest_first [OF h0, of "appends_for ''u1'' (butlast summaries11)"]
    by (simp add: s0 appends_for_def summaries11_def)
  have len: "length (stored ''u1'' ?w10) = 10"
    unfolding b by (simp add: summaries11_def)
  have h10: "length (stored ''u1'' ?w10) \<le> 10"
    using len by simp
  show ?thesis
    using recency_list_bounded_newest_first [OF h10, of "[]" "last summaries11"] h0 a len
    by simp
qed

text \<open>
  C9. Distinct user ids have distinct keys, and an append for one user, accepted or
  not, leaves what \<open>getRecentSessions\<close> returns for any other user unchanged.
\<close>

theorem recent_sessions_isolated_per_user:
  assumes "u1 \<noteq> u2"
  shows "getRecentSessionsKey u1 \<noteq> getRecentSessionsKey u2
       \<and> fst (getRecentSessions reply u2 (addRecentSession exec u1 s w)) =
           fst (getRecentSessions reply u2 w)"
proof -
  have "u2 \<noteq> u1" using assms by simp
  then have "stored u2 (addRecentSession exec u1 s w) = stored u2 w"
    by (rule stored_add_other)
  then have "fst (getRecentSessions reply u2 (addRecentSession exec u1 s w)) =
           fst (getRecentSessions reply u2 w)"
    by (cases reply) (simp_all add: getRecentSessions_fst)
  then show ?thesis
    using assms by (simp add: key_inj)
qed

theorem recent_sessions_isolated_per_user_witness:
  "''u1'' \<noteq> ''u2''
   \<and> fst (getRecentSessions RedisOk ''u2''
          (addRecentSession RedisOk ''u1'' (last summaries11)
             (run_appends (appends_for ''u2'' (take 2 summaries11)) world0))) =
       [summary_obj (summaries11 ! 1), summary_obj (summaries11 ! 0)]"
proof -
  have h: "''u1'' \<noteq> ''u2''" by simp
  have h0: "length (stored ''u2'' world0) \<le> 10"
    by (simp add: stored_def world0_def)
  have "stored ''u2'' (run_appends (appends_for ''u2'' (take 2 summaries11)) world0) =
      [JSON_stringify (summary_obj (summaries11 ! 1)), JSON_stringify (summary_obj (summaries11 ! 0))]"
    using stored_run_appends [of "''u2''" "appends_for ''u2'' (take 2 summaries11)" world0]
    by (simp add: appends_for_def summaries11_def stored_def world0_def)
  then have "fst (getRecentSessions RedisOk ''u2''
       (run_appends (appends_for ''u2'' (take 2 summaries11)) world0)) =
       [summary_obj (summaries11 ! 1), summary_obj (summaries11 ! 0)]"
    by (simp add: getRecentSessions_fst JSON_stringify_def json_of_summary_obj)
  then show ?thesis
    using recent_sessions_isolated_per_user [OF h, of RedisOk RedisOk "last summaries11"
        "run_appends (appends_for ''u2'' (take 2 summaries11)) world0"]
    by simp
qed

text \<open>
  C10. After an accepted append of a summary, reading the user's list at once returns the
  summary itself, field for field, as the first element, followed by the summaries that
  were there (at most 9 of them). The entries already under the key must be JSON texts,
  as every entry this service wrote is (\<open>run_appends_parses\<close>); one entry that does not
  parse makes \<open>getRecentSessions\<close> return the empty array.
\<close>

theorem recent_sessions_round_trip:
  assumes "parse_all (stored u w) = Inr old"
  shows "fst (getRecentSessions RedisOk u (addRecentSession RedisOk u s w)) =
           summary_obj s # take 9 old
       \<and> hd (fst (getRecentSessions RedisOk u (addRecentSession RedisOk u s w))) = summary_obj s"
proof -
  have "parse_all (JSON_stringify (summary_obj s) # stored u w) = Inr (summary_obj s # old)"
    using assms by (simp add: JSON_parse_stringify_summary)
  then have "parse_all (take 10 (JSON_stringify (summary_obj s) # stored u w)) =
      Inr (take 10 (summary_obj s # old))"
    by (rule parse_all_take)
  then have "parse_all (stored u (addRecentSession RedisOk u s w)) =
      Inr (summary_obj s # take 9 old)"
    by (simp only: stored_add_ok) (simp add: take_Cons')
  then show ?thesis
    by (simp add: getRecentSessions_fst)
qed

theorem recent_sessions_round_trip_witness:
  "parse_all (stored ''u1'' (run_appends (appends_for ''u1'' (take 2 summaries11)) world0)) =
     Inr [summary_obj (summaries11 ! 1), summary_obj (summaries11 ! 0)]
   \<and> fst (getRecentSessions RedisOk ''u1''
          (addRecentSession RedisOk ''u1'' (last summaries11)
             (run_appends (appends_for ''u1'' (take 2 summaries11)) world0))) =
       [JObj [(''id'', JStr ''s11''), (''createdAt'', JStr ''2024-01-01T00:00:11.000Z''),
              (''score'', JNull)],
        summary_obj (summaries11 ! 1), summary_obj (summaries11 ! 0)]"
proof -
  have st: "stored ''u1'' (run_appends (appends_for ''u1'' (take 2 summaries11)) world0) =
      [JSON_stringify (summary_obj (summaries11 ! 1)), JSON_stringify (summary_obj (summaries11 ! 0))]"
    using stored_run_appends [of "''u1''" "appends_for ''u1'' (take 2 summaries11)" world0]
    by (simp add: appends_for_def summaries11_def stored_def world0_def)
  have h: "parse_all (stored ''u1'' (run_appends (appends_for ''u1'' (take 2 summaries11)) world0)) =
     Inr [summary_obj (summaries11 ! 1), summary_obj (summaries11 ! 0)]"
    by (simp add: st JSON_parse_stringify_summary)
  show ?thesis
    using recent_sessions_round_trip [OF h, of "last summaries11"] h
    by (simp add: summaries11_def summary_obj_def)
qed

end
